theory Spec2Isabelle
  imports Complex_Main "HOL-Library.AList"
begin

section \<open>The WeatherFlow UDP driver: flattening and projection of hub packets\<close>

text \<open>
  This theory embeds the two pure functions of \<^verbatim>\<open>bin/user/weatherflowudp.py\<close>,
  \<^verbatim>\<open>parseUDPPacket\<close> (the flattener) and \<^verbatim>\<open>sendMyLoopPacket\<close> (the projector),
  together with the body of the loop of \<^verbatim>\<open>genLoopPackets\<close> that composes them.
\<close>

subsection \<open>Values and dictionaries\<close>

text \<open>
  What \<^verbatim>\<open>json.loads\<close> can return. Numbers are only ever copied by the driver, never
  computed with, so a float is carried as the real number its literal denotes. A Python
  string is a list of characters.
\<close>

datatype json =
    JNull
  | JBool bool
  | JInt int
  | JFloat real
  | JStr string
  | JArr "json list"
  | JObj "(string \<times> json) list"

text \<open>
  A Python \<^verbatim>\<open>dict\<close> with string keys, in insertion order. \<^verbatim>\<open>d[k] = v\<close> is
  \<^const>\<open>AList.update\<close>: an existing key keeps its position and takes the new value,
  a new key is appended.
\<close>

type_synonym 'v dict = "(string \<times> 'v) list"

definition dict_in :: "string \<Rightarrow> 'v dict \<Rightarrow> bool" where
  "dict_in k d = (map_of d k \<noteq> None)"

definition keys :: "'v dict \<Rightarrow> string set" where
  "keys d = fst ` set d"

text \<open>The exceptions the two functions can raise.\<close>

datatype py_error = KeyError | IndexError | TypeError | AttributeError

text \<open>The two log calls of \<^verbatim>\<open>parseUDPPacket\<close>, with the value each one formats.\<close>

datatype log_entry =
    Loginf_Corrupt_UDP_packet "json dict"
  | Logerr_Unknown_packet_type string

subsection \<open>The operations of Python the flattener uses\<close>

text \<open>\<^verbatim>\<open>s.replace("-", "_")\<close> on a string.\<close>

definition replace_hyphen :: "string \<Rightarrow> string" where
  "replace_hyphen s = map (\<lambda>c. if c = CHR ''-'' then CHR ''_'' else c) s"

text \<open>
  \<^verbatim>\<open>v.replace("-", "_")\<close> on a decoded value: only a string has the method.
\<close>

fun py_replace :: "json \<Rightarrow> py_error + string" where
  "py_replace (JStr s) = Inr (replace_hyphen s)"
| "py_replace _ = Inl AttributeError"

text \<open>\<^verbatim>\<open>d[k]\<close> on a dictionary.\<close>

definition py_getitem :: "'v dict \<Rightarrow> string \<Rightarrow> py_error + 'v" where
  "py_getitem d k = (case map_of d k of None \<Rightarrow> Inl KeyError | Some v \<Rightarrow> Inr v)"

text \<open>
  \<^verbatim>\<open>v[0]\<close> on a decoded value: the first element of a list, the first character of
  a string, \<^verbatim>\<open>KeyError\<close> on an object (its keys are strings, never \<^verbatim>\<open>0\<close>), and
  \<^verbatim>\<open>TypeError\<close> on a number, a boolean or \<^verbatim>\<open>None\<close>.
\<close>

fun py_first :: "json \<Rightarrow> py_error + json" where
  "py_first (JArr []) = Inl IndexError"
| "py_first (JArr (x # xs)) = Inr x"
| "py_first (JStr []) = Inl IndexError"
| "py_first (JStr (c # cs)) = Inr (JStr [c])"
| "py_first (JObj d) = Inl KeyError"
| "py_first _ = Inl TypeError"

text \<open>
  What iterating over a decoded value yields (the second argument of \<^verbatim>\<open>zip\<close>): the
  elements of a list, the characters of a string, the keys of an object.
\<close>

fun py_iter :: "json \<Rightarrow> py_error + json list" where
  "py_iter (JArr xs) = Inr xs"
| "py_iter (JStr s) = Inr (map (\<lambda>c. JStr [c]) s)"
| "py_iter (JObj d) = Inr (map (\<lambda>kv. JStr (fst kv)) d)"
| "py_iter _ = Inl TypeError"

subsection \<open>The field table\<close>

definition fields :: "string list dict" where
  "fields =
    [(''obs_air'', [''time_epoch'', ''station_pressure'', ''air_temperature'',
        ''relative_humidity'', ''lightning_strike_count'', ''lightning_strike_avg_distance'',
        ''battery'', ''report_interval'']),
     (''obs_sky'', [''time_epoch'', ''illuminance'', ''uv'', ''rain_accumulated'',
        ''wind_lull'', ''wind_avg'', ''wind_gust'', ''wind_direction'', ''battery'',
        ''report_interval'', ''solar_radiation'', ''local_day_rain_accumulation'',
        ''precipitation_type'', ''wind_sample_interval'']),
     (''rapid_wind'', [''time_epoch'', ''wind_speed'', ''wind_direction'']),
     (''evt_precip'', [''time_epoch'']),
     (''evt_strike'', [''time_epoch'', ''distance'', ''energy'']),
     (''obs_st'', [''time_epoch'', ''wind_lull'', ''wind_avg'', ''wind_gust'',
        ''wind_direction'', ''wind_sample_interval'', ''station_pressure'',
        ''air_temperature'', ''relative_humidity'', ''illuminance'', ''uv'',
        ''solar_radiation'', ''rain_accumulated'', ''precipitation_type'',
        ''lightning_strike_avg_distance'', ''lightning_strike_count'', ''battery'',
        ''report_interval''])]"

subsection \<open>sendMyLoopPacket\<close>

text \<open>
  \<^verbatim>\<open>weewx.METRICWX\<close> is a constant of the host library; the function takes it as
  its first argument. The loop over \<^verbatim>\<open>sensor_map.items()\<close> is a fold over the entries
  in order; no operation of the function can raise.
\<close>

definition sendMyLoopPacket :: "json \<Rightarrow> json dict \<Rightarrow> string dict \<Rightarrow> json dict" where
  "sendMyLoopPacket METRICWX pkt sensor_map =
     fold (\<lambda>(pkt_weewx, pkt_label) packet.
             case map_of pkt (replace_hyphen pkt_label) of
               Some v \<Rightarrow> AList.update pkt_weewx v packet
             | None \<Rightarrow> packet)
          sensor_map
          (case map_of pkt ''time_epoch'' of
             Some t \<Rightarrow> [(''dateTime'', t), (''usUnits'', METRICWX)]
           | None \<Rightarrow> [])"

subsection \<open>parseUDPPacket\<close>

text \<open>
  \<^verbatim>\<open>for key in pkt: packet[key + "." + pkt_label] = pkt[key]\<close>. Every \<^verbatim>\<open>key\<close> is a
  key of \<^verbatim>\<open>pkt\<close>, so the lookup \<^verbatim>\<open>pkt[key]\<close> finds a value.
\<close>

definition copy_raw :: "string \<Rightarrow> json dict \<Rightarrow> json dict \<Rightarrow> json dict" where
  "copy_raw pkt_label pkt packet =
     fold (\<lambda>key. AList.update (key @ ''.'' @ pkt_label) (the (map_of pkt key)))
          (map fst pkt) packet"

text \<open>
  \<^verbatim>\<open>for key, value in zip(names, values): packet[key + "." + pkt_label] = value\<close>.
\<close>

definition write_zip :: "string \<Rightarrow> string list \<Rightarrow> json list \<Rightarrow> json dict \<Rightarrow> json dict" where
  "write_zip pkt_label names vals packet =
     fold (\<lambda>(key, v). AList.update (key @ ''.'' @ pkt_label) v) (zip names vals) packet"

text \<open>
  The three positional branches have one shape: \<^verbatim>\<open>packet['time_epoch'] = arr[0]\<close>, then
  the zip of the type's field names with \<^verbatim>\<open>arr\<close>. The subscript is evaluated first,
  so its exception wins.
\<close>

definition positional :: "string \<Rightarrow> string \<Rightarrow> json \<Rightarrow> json dict \<Rightarrow> py_error + json dict" where
  "positional pkt_label ty arr packet =
     (case py_first arr of Inl e \<Rightarrow> Inl e | Inr t \<Rightarrow>
      case py_getitem fields ty of Inl e \<Rightarrow> Inl e | Inr names \<Rightarrow>
      case py_iter arr of Inl e \<Rightarrow> Inl e | Inr vals \<Rightarrow>
        Inr (write_zip pkt_label names vals (AList.update ''time_epoch'' t packet)))"

text \<open>
  The dispatch on \<^verbatim>\<open>pkt['type']\<close>, once it is known to be the string \<open>ty\<close>. The
  argument \<open>now\<close> is the value of \<^verbatim>\<open>int(time.time())\<close>. The result carries the log
  entries written and the dictionary.
\<close>

definition dispatch ::
  "int \<Rightarrow> string \<Rightarrow> string \<Rightarrow> json dict \<Rightarrow> json dict \<Rightarrow> py_error + (log_entry list \<times> json dict)" where
  "dispatch now pkt_label ty pkt packet =
     (if ty \<in> set [''obs_air'', ''obs_sky'', ''obs_st''] then
        (case py_getitem pkt ''obs'' of Inl e \<Rightarrow> Inl e | Inr obs \<Rightarrow>
         case py_first obs of Inl e \<Rightarrow> Inl e | Inr obs0 \<Rightarrow>
         case positional pkt_label ty obs0 packet of Inl e \<Rightarrow> Inl e | Inr p \<Rightarrow> Inr ([], p))
      else if ty = ''rapid_wind'' then
        (case py_getitem pkt ''ob'' of Inl e \<Rightarrow> Inl e | Inr ob \<Rightarrow>
         case positional pkt_label ''rapid_wind'' ob packet of Inl e \<Rightarrow> Inl e | Inr p \<Rightarrow> Inr ([], p))
      else if ty \<in> set [''evt_strike'', ''evt_precip''] then
        (case py_getitem pkt ''evt'' of Inl e \<Rightarrow> Inl e | Inr evt \<Rightarrow>
         case positional pkt_label ty evt packet of Inl e \<Rightarrow> Inl e | Inr p \<Rightarrow> Inr ([], p))
      else if ty = ''device_status'' then
        (case py_getitem pkt ''timestamp'' of Inl e \<Rightarrow> Inl e | Inr t \<Rightarrow>
           Inr ([], AList.update ''time_epoch'' t packet))
      else if ty = ''hub_status'' then
        (case py_getitem pkt ''timestamp'' of Inl e \<Rightarrow> Inl e | Inr t \<Rightarrow>
           Inr ([], AList.update ''time_epoch'' t packet))
      else if take 2 ty = ''X_'' then
        Inr ([], AList.update ''time_epoch'' (JInt now) packet)
      else
        Inr ([Logerr_Unknown_packet_type ty], packet))"

text \<open>
  The decoded message \<^verbatim>\<open>pkt\<close> is a JSON object, a dictionary.
  \<^verbatim>\<open>serial_number + "." + pkt['type']\<close> raises \<^verbatim>\<open>TypeError\<close> unless
  \<^verbatim>\<open>pkt['type']\<close> is a string. Both lookups are guarded by the membership tests.
\<close>

definition parseUDPPacket :: "int \<Rightarrow> json dict \<Rightarrow> py_error + (log_entry list \<times> json dict)" where
  "parseUDPPacket now pkt =
     (if dict_in ''serial_number'' pkt then
        if dict_in ''type'' pkt then
          (case py_replace (the (map_of pkt ''serial_number'')) of
             Inl e \<Rightarrow> Inl e
           | Inr serial_number \<Rightarrow>
               (case the (map_of pkt ''type'') of
                  JStr ty \<Rightarrow>
                    (let pkt_label = serial_number @ ''.'' @ ty
                     in dispatch now pkt_label ty pkt (copy_raw pkt_label pkt []))
                | _ \<Rightarrow> Inl TypeError))
        else Inr ([Loginf_Corrupt_UDP_packet pkt], [])
      else Inr ([Loginf_Corrupt_UDP_packet pkt], []))"

subsection \<open>The body of the loop of genLoopPackets\<close>

text \<open>
  One decoded packet goes through both functions; the record is yielded when it has more
  than two entries. An exception of the flattener is not caught and leaves the generator.
\<close>

definition genLoopPackets_step ::
  "int \<Rightarrow> json \<Rightarrow> string dict \<Rightarrow> json dict \<Rightarrow> py_error + (log_entry list \<times> json dict option)" where
  "genLoopPackets_step now METRICWX sensor_map udp_packet =
     (case parseUDPPacket now udp_packet of
        Inl e \<Rightarrow> Inl e
      | Inr (logged, m2) \<Rightarrow>
          (let m3 = sendMyLoopPacket METRICWX m2 sensor_map
           in Inr (logged, if length m3 > 2 then Some m3 else None)))"

subsection \<open>What the claims speak of\<close>

text \<open>
  The record the projector starts from, in the words of the specification: \<open>dateTime\<close>
  and the unit-system tag when the flattened record has \<open>time_epoch\<close>, nothing otherwise.
\<close>

definition seeded_record :: "json \<Rightarrow> json dict \<Rightarrow> (string \<rightharpoonup> json)" where
  "seeded_record METRICWX flat =
     (case map_of flat ''time_epoch'' of
        Some t \<Rightarrow> [''dateTime'' \<mapsto> t, ''usUnits'' \<mapsto> METRICWX]
      | None \<Rightarrow> Map.empty)"

text \<open>A scalar is a string or a number.\<close>

fun is_scalar :: "json \<Rightarrow> bool" where
  "is_scalar (JInt i) = True"
| "is_scalar (JFloat x) = True"
| "is_scalar (JStr s) = True"
| "is_scalar _ = False"

text \<open>The elements of a value: what iterating over it yields, none when it cannot be iterated.\<close>

definition elements :: "json \<Rightarrow> json list" where
  "elements v = (case py_iter v of Inr xs \<Rightarrow> xs | Inl e \<Rightarrow> [])"

section \<open>Dictionaries built by successive assignments\<close>

lemma dict_in_keys: "dict_in k d \<longleftrightarrow> k \<in> keys d"
  by (simp add: dict_in_def keys_def map_of_eq_None_iff)

lemma keys_update: "keys (AList.update k v d) = insert k (keys d)"
  by (simp add: keys_def AList.dom_update)

lemma keys_fold_update:
  "keys (fold (\<lambda>x. AList.update (f x) (g x)) xs d) = keys d \<union> f ` set xs"
  by (induction xs arbitrary: d) (auto simp: keys_update)

lemma set_update_cases:
  "(k, v) \<in> set (AList.update k' v' d) \<Longrightarrow> (k, v) \<in> set d \<or> (k = k' \<and> v = v')"
  by (induction d) (auto split: if_splits)

lemma set_fold_update:
  "(k, v) \<in> set (fold (\<lambda>x. AList.update (f x) (g x)) xs d) \<Longrightarrow>
     (k, v) \<in> set d \<or> (\<exists>x \<in> set xs. k = f x \<and> v = g x)"
proof (induction xs arbitrary: d)
  case Nil then show ?case by simp
next
  case (Cons x xs)
  from Cons.prems have "(k, v) \<in> set (fold (\<lambda>x. AList.update (f x) (g x)) xs (AList.update (f x) (g x) d))"
    by simp
  from Cons.IH [OF this]
  have "(k, v) \<in> set (AList.update (f x) (g x) d) \<or> (\<exists>y \<in> set xs. k = f y \<and> v = g y)" .
  then show ?case
  proof
    assume "(k, v) \<in> set (AList.update (f x) (g x) d)"
    from set_update_cases [OF this] show ?thesis by auto
  next
    assume "\<exists>y \<in> set xs. k = f y \<and> v = g y"
    then show ?thesis by auto
  qed
qed




lemma distinct_fold_update:
  "distinct (map fst d) \<Longrightarrow> distinct (map fst (fold (\<lambda>x. AList.update (f x) (g x)) xs d))"
  by (induction xs arbitrary: d) (simp_all add: AList.distinct_update)

section \<open>Evaluating the functions on concrete packets\<close>

lemmas eval_defs = genLoopPackets_step_def parseUDPPacket_def dict_in_def dispatch_def
  positional_def py_getitem_def fields_def write_zip_def copy_raw_def sendMyLoopPacket_def
  replace_hyphen_def Let_def

lemma sendMyLoopPacket_Nil: "sendMyLoopPacket METRICWX [] sensor_map = []"
  unfolding sendMyLoopPacket_def by (induction sensor_map) auto

section \<open>The loop of the projector\<close>

lemma project_fold:
  assumes "distinct (map fst sm)"
  shows "map_of (fold (\<lambda>(pkt_weewx, pkt_label) packet.
                   case map_of pkt (replace_hyphen pkt_label) of
                     Some v \<Rightarrow> AList.update pkt_weewx v packet
                   | None \<Rightarrow> packet) sm acc) name =
         (case map_of sm name of
            None \<Rightarrow> map_of acc name
          | Some l \<Rightarrow> (case map_of pkt (replace_hyphen l) of
                        Some v \<Rightarrow> Some v
                      | None \<Rightarrow> map_of acc name))"
  using assms
proof (induction sm arbitrary: acc)
  case Nil
  then show ?case by simp
next
  case (Cons e sm)
  obtain n l where e: "e = (n, l)" by (cases e)
  from Cons.prems e have n: "map_of sm n = None" and d: "distinct (map fst sm)"
    by (simp_all add: map_of_eq_None_iff)
  show ?case
  proof (cases "name = n")
    case True
    then show ?thesis using n e Cons.IH [OF d]
      by (simp add: AList.update_conv' split: option.splits)
  next
    case False
    then show ?thesis using e Cons.IH [OF d]
      by (simp add: AList.update_conv' split: option.splits)
  qed
qed

lemma project_distinct:
  "distinct (map fst acc) \<Longrightarrow>
   distinct (map fst (fold (\<lambda>(pkt_weewx, pkt_label) packet.
                   case map_of pkt (replace_hyphen pkt_label) of
                     Some v \<Rightarrow> AList.update pkt_weewx v packet
                   | None \<Rightarrow> packet) sm acc))"
  by (induction sm arbitrary: acc) (auto simp: AList.distinct_update split: option.splits)

lemma project_no_match:
  "\<forall>e \<in> set sm. map_of pkt (replace_hyphen (snd e)) = None \<Longrightarrow>
   fold (\<lambda>(pkt_weewx, pkt_label) packet.
                   case map_of pkt (replace_hyphen pkt_label) of
                     Some v \<Rightarrow> AList.update pkt_weewx v packet
                   | None \<Rightarrow> packet) sm acc = acc"
  by (induction sm arbitrary: acc) (simp_all add: case_prod_beta)

lemma seed_map_of:
  "map_of (case map_of flat ''time_epoch'' of
             Some t \<Rightarrow> [(''dateTime'', t), (''usUnits'', METRICWX)]
           | None \<Rightarrow> []) = seeded_record METRICWX flat"
  by (auto simp: seeded_record_def fun_eq_iff split: option.splits)

section \<open>The flattener\<close>

lemma dispatch_clock:
  "take 2 ty \<noteq> ''X_'' \<Longrightarrow>
     dispatch now pkt_label ty pkt packet = dispatch now' pkt_label ty pkt packet"
  by (simp add: dispatch_def)

lemma keys_copy_raw:
  "keys (copy_raw pkt_label pkt packet) = keys packet \<union> (\<lambda>k. k @ ''.'' @ pkt_label) ` keys pkt"
  unfolding copy_raw_def keys_fold_update by (simp add: keys_def)

lemma parseUDPPacket_X:
  assumes "map_of pkt ''serial_number'' = Some (JStr sn)"
    and "map_of pkt ''type'' = Some (JStr ty)"
    and "take 2 ty = ''X_''"
  shows "parseUDPPacket now pkt =
     Inr ([], AList.update ''time_epoch'' (JInt now)
                (copy_raw (replace_hyphen sn @ ''.'' @ ty) pkt []))"
proof -
  from assms(3) have "ty \<noteq> ''obs_air''" "ty \<noteq> ''obs_sky''" "ty \<noteq> ''obs_st''"
    "ty \<noteq> ''rapid_wind''" "ty \<noteq> ''evt_strike''" "ty \<noteq> ''evt_precip''"
    "ty \<noteq> ''device_status''" "ty \<noteq> ''hub_status''"
    by auto
  with assms show ?thesis
    by (simp add: parseUDPPacket_def dict_in_def dispatch_def)
qed

lemma parseUDPPacket_Inr_cases:
  assumes "parseUDPPacket now pkt = Inr (logged, flat)"
  obtains (corrupt) "flat = []"
  | (typed) sn ty where
      "map_of pkt ''serial_number'' = Some (JStr sn)"
      "map_of pkt ''type'' = Some (JStr ty)"
      "dispatch now (replace_hyphen sn @ ''.'' @ ty) ty pkt
         (copy_raw (replace_hyphen sn @ ''.'' @ ty) pkt []) = Inr (logged, flat)"
proof (cases "dict_in ''serial_number'' pkt \<and> dict_in ''type'' pkt")
  case False
  with assms have "flat = []" by (auto simp: parseUDPPacket_def split: if_splits)
  then show ?thesis by (rule corrupt)
next
  case True
  then obtain a b where a: "map_of pkt ''serial_number'' = Some a"
    and b: "map_of pkt ''type'' = Some b"
    by (auto simp: dict_in_def)
  from assms True a b obtain sn where sn: "a = JStr sn"
    by (cases a) (simp_all add: parseUDPPacket_def)
  from assms True a b sn obtain ty where ty: "b = JStr ty"
    by (cases b) (simp_all add: parseUDPPacket_def)
  from assms True a b sn ty
  have "dispatch now (replace_hyphen sn @ ''.'' @ ty) ty pkt
         (copy_raw (replace_hyphen sn @ ''.'' @ ty) pkt []) = Inr (logged, flat)"
    by (simp add: parseUDPPacket_def Let_def)
  with a b sn ty show ?thesis by (auto intro: typed)
qed

lemma write_zip_fold:
  "write_zip pkt_label names vals packet =
     fold (\<lambda>x. AList.update (fst x @ ''.'' @ pkt_label) (snd x)) (zip names vals) packet"
  by (simp add: write_zip_def case_prod_unfold)

lemma set_write_zip:
  assumes "(k, v) \<in> set (write_zip pkt_label names vals packet)"
  shows "(k, v) \<in> set packet \<or> v \<in> set vals"
proof -
  from set_fold_update [OF assms [unfolded write_zip_fold]]
  show ?thesis by (auto dest: set_zip_rightD)
qed

lemma set_copy_raw_key:
  assumes "(k, v) \<in> set (copy_raw pkt_label pkt packet)"
  shows "(k, v) \<in> set packet
           \<or> (\<exists>key. map_of pkt key = Some v \<and> k = key @ ''.'' @ pkt_label)"
proof -
  from set_fold_update [OF assms [unfolded copy_raw_def]]
  have "(k, v) \<in> set packet
          \<or> (\<exists>key \<in> fst ` set pkt. k = key @ ''.'' @ pkt_label \<and> v = the (map_of pkt key))"
    by auto
  then show ?thesis
  proof
    assume "\<exists>key \<in> fst ` set pkt. k = key @ ''.'' @ pkt_label \<and> v = the (map_of pkt key)"
    then obtain key where key: "key \<in> fst ` set pkt" and k: "k = key @ ''.'' @ pkt_label"
      and v: "v = the (map_of pkt key)" by blast
    from key obtain w where w: "map_of pkt key = Some w"
      by (cases "map_of pkt key") (auto simp: map_of_eq_None_iff)
    with v have "map_of pkt key = Some v" by simp
    with k show ?thesis by blast
  qed simp
qed

lemma py_first_in_py_iter:
  "py_first arr = Inr t \<Longrightarrow> py_iter arr = Inr vals \<Longrightarrow> t \<in> set vals"
  by (cases arr rule: py_first.cases) auto

lemma set_positional:
  assumes "positional pkt_label ty arr packet = Inr p" and "(k, v) \<in> set p"
  shows "(k, v) \<in> set packet \<or> v \<in> set (elements arr)"
proof -
  from assms(1) obtain t names vals where t: "py_first arr = Inr t"
    and vals: "py_iter arr = Inr vals"
    and p: "p = write_zip pkt_label names vals (AList.update ''time_epoch'' t packet)"
    by (auto simp: positional_def split: sum.splits)
  from assms(2) p set_write_zip
  have "(k, v) \<in> set (AList.update ''time_epoch'' t packet) \<or> v \<in> set vals" by blast
  then show ?thesis
    using py_first_in_py_iter [OF t vals] vals
    by (auto simp: elements_def dest: set_update_cases)
qed

lemma dispatch_Inr_cases:
  assumes "dispatch now pkt_label ty pkt packet = Inr (logged, flat)"
  obtains (roll) obs obs0 where "ty \<in> set [''obs_air'', ''obs_sky'', ''obs_st'']"
      "map_of pkt ''obs'' = Some obs" "py_first obs = Inr obs0"
      "positional pkt_label ty obs0 packet = Inr flat" "logged = []"
  | (wind) ob where "ty = ''rapid_wind''" "map_of pkt ''ob'' = Some ob"
      "positional pkt_label ''rapid_wind'' ob packet = Inr flat" "logged = []"
  | (evt) ev where "ty \<in> set [''evt_strike'', ''evt_precip'']" "map_of pkt ''evt'' = Some ev"
      "positional pkt_label ty ev packet = Inr flat" "logged = []"
  | (status) t where "map_of pkt ''timestamp'' = Some t"
      "flat = AList.update ''time_epoch'' t packet" "logged = []"
      "ty = ''device_status'' \<or> ty = ''hub_status''"
  | (clock) "take 2 ty = ''X_''" "flat = AList.update ''time_epoch'' (JInt now) packet"
      "logged = []"
  | (unknown) "flat = packet" "logged = [Logerr_Unknown_packet_type ty]"
proof (cases "ty \<in> set [''obs_air'', ''obs_sky'', ''obs_st'']")
  case c1: True
  with assms have
    "(case py_getitem pkt ''obs'' of Inl e \<Rightarrow> Inl e | Inr obs \<Rightarrow>
      case py_first obs of Inl e \<Rightarrow> Inl e | Inr obs0 \<Rightarrow>
      case positional pkt_label ty obs0 packet of Inl e \<Rightarrow> Inl e | Inr p \<Rightarrow> Inr ([], p))
     = Inr (logged, flat)"
    by (simp only: dispatch_def if_True)
  then obtain obs obs0 where "map_of pkt ''obs'' = Some obs" "py_first obs = Inr obs0"
      "positional pkt_label ty obs0 packet = Inr flat" "logged = []"
    by (auto simp: py_getitem_def split: option.splits sum.splits)
  with c1 show ?thesis by (rule roll)
next
  case c1: False
  show ?thesis
  proof (cases "ty = ''rapid_wind''")
    case c2: True
    with c1 assms have
      "(case py_getitem pkt ''ob'' of Inl e \<Rightarrow> Inl e | Inr ob \<Rightarrow>
        case positional pkt_label ''rapid_wind'' ob packet of Inl e \<Rightarrow> Inl e
        | Inr p \<Rightarrow> Inr ([], p)) = Inr (logged, flat)"
      by (simp only: dispatch_def if_True if_False simp_thms)
    then obtain ob where "map_of pkt ''ob'' = Some ob"
        "positional pkt_label ''rapid_wind'' ob packet = Inr flat" "logged = []"
      by (auto simp: py_getitem_def split: option.splits sum.splits)
    with c2 show ?thesis by (rule wind)
  next
    case c2: False
    show ?thesis
    proof (cases "ty \<in> set [''evt_strike'', ''evt_precip'']")
      case c3: True
      with c1 c2 assms have
        "(case py_getitem pkt ''evt'' of Inl e \<Rightarrow> Inl e | Inr evt \<Rightarrow>
          case positional pkt_label ty evt packet of Inl e \<Rightarrow> Inl e
          | Inr p \<Rightarrow> Inr ([], p)) = Inr (logged, flat)"
        by (simp only: dispatch_def if_True if_False simp_thms)
      then obtain ev where "map_of pkt ''evt'' = Some ev"
          "positional pkt_label ty ev packet = Inr flat" "logged = []"
        by (auto simp: py_getitem_def split: option.splits sum.splits)
      with c3 show ?thesis by (rule evt)
    next
      case c3: False
      show ?thesis
      proof (cases "ty = ''device_status''")
        case c4: True
        with c1 c2 c3 assms have
          "(case py_getitem pkt ''timestamp'' of Inl e \<Rightarrow> Inl e | Inr t \<Rightarrow>
              Inr ([], AList.update ''time_epoch'' t packet)) = Inr (logged, flat)"
          by (simp only: dispatch_def if_True if_False simp_thms)
        then obtain t where "map_of pkt ''timestamp'' = Some t"
            "flat = AList.update ''time_epoch'' t packet" "logged = []"
          by (auto simp: py_getitem_def split: option.splits)
        moreover from c4 have "ty = ''device_status'' \<or> ty = ''hub_status''" by simp
        ultimately show ?thesis by (rule status)
      next
        case c4: False
        show ?thesis
        proof (cases "ty = ''hub_status''")
          case c5: True
          with c1 c2 c3 c4 assms have
            "(case py_getitem pkt ''timestamp'' of Inl e \<Rightarrow> Inl e | Inr t \<Rightarrow>
                Inr ([], AList.update ''time_epoch'' t packet)) = Inr (logged, flat)"
            by (simp only: dispatch_def if_True if_False simp_thms)
          then obtain t where "map_of pkt ''timestamp'' = Some t"
              "flat = AList.update ''time_epoch'' t packet" "logged = []"
            by (auto simp: py_getitem_def split: option.splits)
          moreover from c5 have "ty = ''device_status'' \<or> ty = ''hub_status''" by simp
          ultimately show ?thesis by (rule status)
        next
          case c5: False
        show ?thesis
        proof (cases "take 2 ty = ''X_''")
          case True
          with c1 c2 c3 c4 c5
          have "dispatch now pkt_label ty pkt packet =
                  Inr ([], AList.update ''time_epoch'' (JInt now) packet)"
            by (simp only: dispatch_def if_True if_False simp_thms)
          with assms have "flat = AList.update ''time_epoch'' (JInt now) packet" "logged = []"
            by simp_all
          with True show ?thesis by (rule clock)
        next
          case False
          with c1 c2 c3 c4 c5
          have "dispatch now pkt_label ty pkt packet =
                  Inr ([Logerr_Unknown_packet_type ty], packet)"
            by (simp only: dispatch_def if_True if_False simp_thms)
          with assms have "flat = packet" "logged = [Logerr_Unknown_packet_type ty]" by simp_all
          then show ?thesis by (rule unknown)
        qed
      qed
    qed
  qed
qed
qed

text \<open>The keys of the flattened record, and the separator.\<close>

lemma split_at_dot:
  "CHR ''.'' \<notin> set a \<Longrightarrow> CHR ''.'' \<notin> set b \<Longrightarrow> a @ CHR ''.'' # x = b @ CHR ''.'' # y
     \<Longrightarrow> a = b \<and> x = y"
proof (induction a arbitrary: b)
  case Nil
  then show ?case by (cases b) auto
next
  case (Cons c a)
  then show ?case by (cases b) auto
qed

lemma no_dot_replace_hyphen: "CHR ''.'' \<notin> set s \<Longrightarrow> CHR ''.'' \<notin> set (replace_hyphen s)"
  by (auto simp: replace_hyphen_def split: if_splits)

lemma fields_no_dot:
  assumes "map_of fields ty = Some names" and "f \<in> set names"
  shows "CHR ''.'' \<notin> set f"
proof -
  from map_of_SomeD [OF assms(1)] have "names \<in> snd ` set fields" by force
  then have "\<forall>f \<in> set names. CHR ''.'' \<notin> set f"
    unfolding fields_def by (elim imageE) (simp, elim disjE, simp_all)
  with assms(2) show ?thesis by blast
qed

lemma keys_write_zip:
  "keys (write_zip pkt_label names vals packet)
     \<subseteq> keys packet \<union> (\<lambda>f. f @ ''.'' @ pkt_label) ` set names"
  unfolding write_zip_fold keys_fold_update by (auto dest: set_zip_leftD)

lemma keys_positional:
  assumes "positional pkt_label ty arr packet = Inr p" and "k \<in> keys p"
  shows "k = ''time_epoch'' \<or> k \<in> keys packet
           \<or> (\<exists>f. CHR ''.'' \<notin> set f \<and> k = f @ ''.'' @ pkt_label)"
proof -
  from assms(1) obtain t names vals where names: "map_of fields ty = Some names"
    and p: "p = write_zip pkt_label names vals (AList.update ''time_epoch'' t packet)"
    by (auto simp: positional_def py_getitem_def split: sum.splits option.splits)
  from assms(2) p keys_write_zip
  have "k \<in> keys (AList.update ''time_epoch'' t packet)
          \<or> k \<in> (\<lambda>f. f @ ''.'' @ pkt_label) ` set names" by blast
  then show ?thesis
  proof
    assume "k \<in> keys (AList.update ''time_epoch'' t packet)"
    then show ?thesis by (auto simp: keys_update)
  next
    assume "k \<in> (\<lambda>f. f @ ''.'' @ pkt_label) ` set names"
    then obtain f where "f \<in> set names" "k = f @ ''.'' @ pkt_label" by blast
    with fields_no_dot [OF names] show ?thesis by blast
  qed
qed

lemma keys_dispatch:
  assumes "dispatch now pkt_label ty pkt packet = Inr (logged, flat)" and "k \<in> keys flat"
  shows "k = ''time_epoch'' \<or> k \<in> keys packet
           \<or> (\<exists>f. CHR ''.'' \<notin> set f \<and> k = f @ ''.'' @ pkt_label)"
  using assms(1)
proof (cases rule: dispatch_Inr_cases)
  case (roll obs obs0)
  from keys_positional [OF roll(4) assms(2)] show ?thesis .
next
  case (wind ob)
  from keys_positional [OF wind(3) assms(2)] show ?thesis .
next
  case (evt ev)
  from keys_positional [OF evt(3) assms(2)] show ?thesis .
next
  case (status t)
  with assms(2) show ?thesis by (auto simp: keys_update)
next
  case clock
  with assms(2) show ?thesis by (auto simp: keys_update)
next
  case unknown
  with assms(2) show ?thesis by simp
qed

lemma keys_parseUDPPacket:
  assumes "parseUDPPacket now pkt = Inr (logged, flat)"
    and "map_of pkt ''serial_number'' = Some (JStr sn)"
    and "map_of pkt ''type'' = Some (JStr ty)"
    and "\<forall>key \<in> keys pkt. CHR ''.'' \<notin> set key"
    and "k \<in> keys flat"
  shows "k = ''time_epoch''
           \<or> (\<exists>f. CHR ''.'' \<notin> set f \<and> k = f @ ''.'' @ replace_hyphen sn @ ''.'' @ ty)"
  using assms(1)
proof (cases rule: parseUDPPacket_Inr_cases)
  case corrupt
  with assms(5) show ?thesis by (simp add: keys_def)
next
  case (typed sn' ty')
  with assms(2,3) have eq: "sn' = sn" "ty' = ty" by simp_all
  let ?l = "replace_hyphen sn @ ''.'' @ ty"
  from keys_dispatch [OF typed(3) [unfolded eq] assms(5)]
  have "k = ''time_epoch'' \<or> k \<in> keys (copy_raw ?l pkt [])
          \<or> (\<exists>f. CHR ''.'' \<notin> set f \<and> k = f @ ''.'' @ ?l)" .
  moreover have "\<exists>f. CHR ''.'' \<notin> set f \<and> k = f @ ''.'' @ ?l"
    if "k \<in> keys (copy_raw ?l pkt [])"
  proof -
    from that obtain key where "key \<in> keys pkt" "k = key @ ''.'' @ ?l"
      unfolding keys_copy_raw by (auto simp: keys_def)
    with assms(4) show ?thesis by blast
  qed
  ultimately show ?thesis by blast
qed


lemma label_inj: "a @ ''.'' @ l = b @ ''.'' @ l \<longleftrightarrow> a = b"
  by simp






section \<open>The claims\<close>

text \<open>
  Claim C1 says that the pipeline never raises, and that \<^verbatim>\<open>parseUDPPacket\<close> returns a
  record even when a message of a positional type lacks its array key or carries an empty
  array. The function reads \<^verbatim>\<open>pkt['obs']\<close>, \<^verbatim>\<open>pkt['ob']\<close> and \<^verbatim>\<open>pkt['evt']\<close>
  without a guard: an \<^verbatim>\<open>obs_air\<close> message without \<^verbatim>\<open>obs\<close> raises
  \<^verbatim>\<open>KeyError\<close>, a \<^verbatim>\<open>rapid_wind\<close> message with an empty \<^verbatim>\<open>ob\<close> raises
  \<^verbatim>\<open>IndexError\<close>, an \<^verbatim>\<open>evt_strike\<close> message without \<^verbatim>\<open>evt\<close> raises
  \<^verbatim>\<open>KeyError\<close>, and the exception leaves the loop of \<^verbatim>\<open>genLoopPackets\<close>, whatever
  the alias table. The absence of \<^verbatim>\<open>serial_number\<close> or \<^verbatim>\<open>type\<close>, in contrast, is
  tested for and logged (claim C5).
\<close>

theorem parseUDPPacket_raises_without_array:
  "parseUDPPacket now [(''serial_number'', JStr ''AR-00004424''), (''type'', JStr ''obs_air'')]
     = Inl KeyError
   \<and> parseUDPPacket now [(''serial_number'', JStr ''SK-00001234''), (''type'', JStr ''rapid_wind''),
        (''ob'', JArr [])] = Inl IndexError
   \<and> parseUDPPacket now [(''serial_number'', JStr ''AR-00004424''), (''type'', JStr ''evt_strike'')]
     = Inl KeyError
   \<and> genLoopPackets_step now METRICWX sensor_map
        [(''serial_number'', JStr ''AR-00004424''), (''type'', JStr ''obs_air'')] = Inl KeyError"
  by (simp add: eval_defs)

text \<open>
  Claim C2: the \<^verbatim>\<open>obs_air\<close> scenario of the specification. The message
  \<^verbatim>\<open>{"serial_number":"AR-00004424","type":"obs_air","obs":[[1600000000,1015.1,22.3,54,0,0,3.5,1]]}\<close>
  with the alias table \<^verbatim>\<open>{outTemp: "air_temperature.AR-00004424.obs_air"}\<close> is flattened
  without error or log entry and projected to the record with \<open>dateTime = 1600000000\<close>,
  \<open>usUnits = METRICWX\<close> and \<open>outTemp = 22.3\<close>, and to no other entry; the record has
  three entries, so the loop yields it.
\<close>

theorem scenario_obs_air:
  "genLoopPackets_step now METRICWX
     [(''outTemp'', ''air_temperature.AR-00004424.obs_air'')]
     [(''serial_number'', JStr ''AR-00004424''), (''type'', JStr ''obs_air''),
      (''obs'', JArr [JArr [JInt 1600000000, JFloat 1015.1, JFloat 22.3, JInt 54,
                            JInt 0, JInt 0, JFloat 3.5, JInt 1]])]
   = Inr ([], Some [(''dateTime'', JInt 1600000000), (''usUnits'', METRICWX),
                    (''outTemp'', JFloat 22.3)])"
  by (simp add: eval_defs)

text \<open>
  Claim C5: when \<^verbatim>\<open>serial_number\<close> or \<^verbatim>\<open>type\<close> is not a key of the decoded
  message (the empty object included), \<^verbatim>\<open>parseUDPPacket\<close> returns the empty record and
  logs the message as a corrupt packet; nothing is raised, and the loop of
  \<^verbatim>\<open>genLoopPackets\<close> goes on without yielding a record.
\<close>

theorem parseUDPPacket_corrupt:
  assumes "''serial_number'' \<notin> keys pkt \<or> ''type'' \<notin> keys pkt"
  shows "parseUDPPacket now pkt = Inr ([Loginf_Corrupt_UDP_packet pkt], [])
       \<and> genLoopPackets_step now METRICWX sensor_map pkt = Inr ([Loginf_Corrupt_UDP_packet pkt], None)"
proof -
  from assms have "parseUDPPacket now pkt = Inr ([Loginf_Corrupt_UDP_packet pkt], [])"
    by (auto simp: parseUDPPacket_def dict_in_keys)
  then show ?thesis
    by (simp add: genLoopPackets_step_def sendMyLoopPacket_Nil)
qed

theorem parseUDPPacket_corrupt_witness:
  "''serial_number'' \<notin> keys ([] :: json dict)
   \<and> parseUDPPacket 0 [] = Inr ([Loginf_Corrupt_UDP_packet []], [])
   \<and> genLoopPackets_step 0 (JInt 17) [(''outTemp'', ''air_temperature.AR-00004424.obs_air'')] []
        = Inr ([Loginf_Corrupt_UDP_packet []], None)
   \<and> ''type'' \<notin> keys [(''serial_number'', JStr ''AR-00004424'')]
   \<and> parseUDPPacket 0 [(''serial_number'', JStr ''AR-00004424'')]
        = Inr ([Loginf_Corrupt_UDP_packet [(''serial_number'', JStr ''AR-00004424'')]], [])"
  using parseUDPPacket_corrupt [of "[]" 0 "JInt 17" "[(''outTemp'', ''air_temperature.AR-00004424.obs_air'')]"]
        parseUDPPacket_corrupt [of "[(''serial_number'', JStr ''AR-00004424'')]" 0 "JInt 17" "[]"]
  by (simp add: keys_def)

text \<open>
  Claim C6: projection never fails and returns a record, a dictionary whose keys are
  distinct. Its entry under any output name is decided as follows, for an alias table
  (a dictionary, so its names are distinct): when the table maps the name to a dotted key
  whose hyphens-to-underscores normalisation is a key of the flattened record, the entry is
  the record's value under that normalised key; otherwise the alias is skipped and the
  entry is that of the seeded record, which holds \<open>dateTime\<close> (the value of
  \<open>time_epoch\<close>) and \<open>usUnits\<close> (the metric tag) when the flattened record has
  \<open>time_epoch\<close>, and is empty when it has not.
\<close>

theorem sendMyLoopPacket_projection:
  assumes "distinct (map fst sensor_map)"
  shows "map_of (sendMyLoopPacket METRICWX flat sensor_map) outputName =
           (case map_of sensor_map outputName of
              None \<Rightarrow> seeded_record METRICWX flat outputName
            | Some dottedKey \<Rightarrow>
                (case map_of flat (replace_hyphen dottedKey) of
                   Some v \<Rightarrow> Some v
                 | None \<Rightarrow> seeded_record METRICWX flat outputName))
       \<and> distinct (map fst (sendMyLoopPacket METRICWX flat sensor_map))"
proof
  show "map_of (sendMyLoopPacket METRICWX flat sensor_map) outputName =
           (case map_of sensor_map outputName of
              None \<Rightarrow> seeded_record METRICWX flat outputName
            | Some dottedKey \<Rightarrow>
                (case map_of flat (replace_hyphen dottedKey) of
                   Some v \<Rightarrow> Some v
                 | None \<Rightarrow> seeded_record METRICWX flat outputName))"
    unfolding sendMyLoopPacket_def project_fold [OF assms] seed_map_of ..
  show "distinct (map fst (sendMyLoopPacket METRICWX flat sensor_map))"
    unfolding sendMyLoopPacket_def
    by (rule project_distinct) (simp split: option.splits)
qed

theorem sendMyLoopPacket_projection_witness:
  "distinct (map fst [(''outTemp'', ''air_temperature.AR-00004424.obs_air''),
                      (''windSpeed'', ''wind_speed.SK-00001234.rapid_wind'')])
   \<and> map_of (sendMyLoopPacket (JInt 17)
        [(''time_epoch'', JInt 1600000000),
         (''air_temperature.AR_00004424.obs_air'', JFloat 22.3)]
        [(''outTemp'', ''air_temperature.AR-00004424.obs_air''),
         (''windSpeed'', ''wind_speed.SK-00001234.rapid_wind'')]) ''outTemp'' = Some (JFloat 22.3)
   \<and> map_of (sendMyLoopPacket (JInt 17)
        [(''time_epoch'', JInt 1600000000),
         (''air_temperature.AR_00004424.obs_air'', JFloat 22.3)]
        [(''outTemp'', ''air_temperature.AR-00004424.obs_air''),
         (''windSpeed'', ''wind_speed.SK-00001234.rapid_wind'')]) ''windSpeed'' = None"
  using sendMyLoopPacket_projection [of
        "[(''outTemp'', ''air_temperature.AR-00004424.obs_air''),
          (''windSpeed'', ''wind_speed.SK-00001234.rapid_wind'')]"
        "JInt 17"
        "[(''time_epoch'', JInt 1600000000),
          (''air_temperature.AR_00004424.obs_air'', JFloat 22.3)]" "''outTemp''"]
    sendMyLoopPacket_projection [of
        "[(''outTemp'', ''air_temperature.AR-00004424.obs_air''),
          (''windSpeed'', ''wind_speed.SK-00001234.rapid_wind'')]"
        "JInt 17"
        "[(''time_epoch'', JInt 1600000000),
          (''air_temperature.AR_00004424.obs_air'', JFloat 22.3)]" "''windSpeed''"]
  by (simp add: seeded_record_def replace_hyphen_def)

text \<open>
  Claim C10 says that when the alias table maps \<open>dateTime\<close> (or \<open>usUnits\<close>) to a dotted
  key present in the flattened record, the final record holds the aliased value. The
  projector looks up the dotted key with every hyphen replaced by an underscore, while the
  flattener replaces the hyphens of the hardware id only: the message below has the
  top-level key \<^verbatim>\<open>my-key\<close>, its record has the key \<^verbatim>\<open>my-key.HB_00000001.hub_status\<close>,
  and the alias of \<open>dateTime\<close> to that very key is skipped, so \<open>dateTime\<close> keeps the
  seeded timestamp.
\<close>

theorem alias_present_key_skipped_counterexample:
  "parseUDPPacket 0 [(''serial_number'', JStr ''HB-00000001''), (''type'', JStr ''hub_status''),
                     (''timestamp'', JInt 7), (''my-key'', JInt 5)]
     = Inr ([], [(''serial_number.HB_00000001.hub_status'', JStr ''HB-00000001''),
                 (''type.HB_00000001.hub_status'', JStr ''hub_status''),
                 (''timestamp.HB_00000001.hub_status'', JInt 7),
                 (''my-key.HB_00000001.hub_status'', JInt 5),
                 (''time_epoch'', JInt 7)])
   \<and> map_of [(''dateTime'', ''my-key.HB_00000001.hub_status'')] ''dateTime''
       = Some ''my-key.HB_00000001.hub_status''
   \<and> map_of [(''serial_number.HB_00000001.hub_status'', JStr ''HB-00000001''),
              (''type.HB_00000001.hub_status'', JStr ''hub_status''),
              (''timestamp.HB_00000001.hub_status'', JInt 7),
              (''my-key.HB_00000001.hub_status'', JInt 5),
              (''time_epoch'', JInt 7)] ''my-key.HB_00000001.hub_status'' = Some (JInt 5)
   \<and> sendMyLoopPacket (JInt 17)
        [(''serial_number.HB_00000001.hub_status'', JStr ''HB-00000001''),
         (''type.HB_00000001.hub_status'', JStr ''hub_status''),
         (''timestamp.HB_00000001.hub_status'', JInt 7),
         (''my-key.HB_00000001.hub_status'', JInt 5),
         (''time_epoch'', JInt 7)]
        [(''dateTime'', ''my-key.HB_00000001.hub_status'')]
     = [(''dateTime'', JInt 7), (''usUnits'', JInt 17)]"
  by (simp add: eval_defs)

text \<open>
  Claim C10, amended: the alias table is applied after the seeding. With no alias the
  record holds the value of \<open>time_epoch\<close> under \<open>dateTime\<close> and the metric tag under
  \<open>usUnits\<close>; when the alias table maps \<open>dateTime\<close> (or \<open>usUnits\<close>) to a dotted key
  whose hyphens-to-underscores normalisation is a key of the flattened record, the final
  record holds, under that name, the record's value at the normalised key instead.
\<close>

theorem alias_overwrites_seed:
  assumes "distinct (map fst sensor_map)"
    and "''time_epoch'' \<in> keys flat"
    and "outputName = ''dateTime'' \<or> outputName = ''usUnits''"
    and "map_of sensor_map outputName = Some dottedKey"
    and "map_of flat (replace_hyphen dottedKey) = Some v"
  shows "map_of (sendMyLoopPacket METRICWX flat []) ''dateTime'' = map_of flat ''time_epoch''
       \<and> map_of (sendMyLoopPacket METRICWX flat []) ''usUnits'' = Some METRICWX
       \<and> map_of (sendMyLoopPacket METRICWX flat sensor_map) outputName = Some v"
proof -
  from assms(2) obtain t where t: "map_of flat ''time_epoch'' = Some t"
    by (cases "map_of flat ''time_epoch''") (auto simp: keys_def map_of_eq_None_iff)
  have "map_of (sendMyLoopPacket METRICWX flat sensor_map) outputName = Some v"
    unfolding sendMyLoopPacket_def project_fold [OF assms(1)] using assms(4,5) by simp
  then show ?thesis using t by (simp add: sendMyLoopPacket_def)
qed

theorem alias_overwrites_seed_witness:
  "distinct (map fst [(''dateTime'', ''timestamp.HB-00000001.hub_status'')])
   \<and> ''time_epoch'' \<in> keys [(''timestamp.HB_00000001.hub_status'', JInt 5), (''time_epoch'', JInt 7)]
   \<and> map_of (sendMyLoopPacket (JInt 17)
         [(''timestamp.HB_00000001.hub_status'', JInt 5), (''time_epoch'', JInt 7)] []) ''dateTime''
       = Some (JInt 7)
   \<and> map_of (sendMyLoopPacket (JInt 17)
         [(''timestamp.HB_00000001.hub_status'', JInt 5), (''time_epoch'', JInt 7)]
         [(''dateTime'', ''timestamp.HB-00000001.hub_status'')]) ''dateTime''
       = Some (JInt 5)"
  using alias_overwrites_seed [of "[(''dateTime'', ''timestamp.HB-00000001.hub_status'')]"
      "[(''timestamp.HB_00000001.hub_status'', JInt 5), (''time_epoch'', JInt 7)]"
      "''dateTime''" "''timestamp.HB-00000001.hub_status''" "JInt 5" "JInt 17"]
  by (simp add: keys_def replace_hyphen_def)

text \<open>
  Claim C7 says that flattening the same decoded message twice gives the same record,
  with no dependence on the current time. For a type that starts with \<^verbatim>\<open>X_\<close> the
  function stores \<^verbatim>\<open>int(time.time())\<close> under \<open>time_epoch\<close>, so two runs at
  different seconds differ.
\<close>

theorem flattening_depends_on_clock_counterexample:
  "parseUDPPacket 1600000000 [(''serial_number'', JStr ''HB-00000001''), (''type'', JStr ''X_custom'')]
   \<noteq> parseUDPPacket 1600000001 [(''serial_number'', JStr ''HB-00000001''), (''type'', JStr ''X_custom'')]"
  by (simp add: eval_defs)

text \<open>
  Claim C7, amended: for every decoded message whose type is not a string starting with
  \<^verbatim>\<open>X_\<close>, the result of flattening (record, log entries or exception) is the same
  at any two readings of the clock.
\<close>

theorem parseUDPPacket_clock_independent:
  assumes "\<forall>ty. map_of pkt ''type'' = Some (JStr ty) \<longrightarrow> take 2 ty \<noteq> ''X_''"
  shows "parseUDPPacket now pkt = parseUDPPacket now' pkt"
proof (cases "map_of pkt ''type''")
  case None
  then show ?thesis by (simp add: parseUDPPacket_def dict_in_def)
next
  case (Some v)
  show ?thesis
  proof (cases v)
    case (JStr ty)
    with Some assms have "take 2 ty \<noteq> ''X_''" by simp
    then have d: "\<And>l p. dispatch now l ty pkt p = dispatch now' l ty pkt p"
      by (rule dispatch_clock)
    show ?thesis
      using Some JStr by (simp add: parseUDPPacket_def d Let_def split: sum.splits)
  qed (use Some in \<open>simp_all add: parseUDPPacket_def split: sum.splits\<close>)
qed

theorem parseUDPPacket_clock_independent_witness:
  "map_of [(''serial_number'', JStr ''HB-00000001''), (''type'', JStr ''hub_status''),
           (''timestamp'', JInt 1600000000)] ''type'' = Some (JStr ''hub_status'')
   \<and> take 2 ''hub_status'' \<noteq> ''X_''
   \<and> parseUDPPacket 1600000000 [(''serial_number'', JStr ''HB-00000001''), (''type'', JStr ''hub_status''),
           (''timestamp'', JInt 1600000000)]
     = parseUDPPacket 1600000001 [(''serial_number'', JStr ''HB-00000001''), (''type'', JStr ''hub_status''),
           (''timestamp'', JInt 1600000000)]
   \<and> parseUDPPacket 1600000001 [(''serial_number'', JStr ''HB-00000001''), (''type'', JStr ''hub_status''),
           (''timestamp'', JInt 1600000000)]
     = Inr ([], [(''serial_number.HB_00000001.hub_status'', JStr ''HB-00000001''),
                 (''type.HB_00000001.hub_status'', JStr ''hub_status''),
                 (''timestamp.HB_00000001.hub_status'', JInt 1600000000),
                 (''time_epoch'', JInt 1600000000)])"
  using parseUDPPacket_clock_independent [of
      "[(''serial_number'', JStr ''HB-00000001''), (''type'', JStr ''hub_status''),
        (''timestamp'', JInt 1600000000)]" 1600000000 1600000001]
  by (simp add: eval_defs)

text \<open>
  Claim C8 says that for a message of an \<^verbatim>\<open>X_\<close> type and any alias table the output
  record contains \<open>dateTime\<close> and nothing else. The projector always seeds
  \<open>usUnits\<close> together with \<open>dateTime\<close>, and the raw copies of the top-level keys
  (here \<^verbatim>\<open>type.HB_00000001.X_custom\<close>) can be aliased.
\<close>

theorem X_packet_counterexample:
  "genLoopPackets_step 1600000000 (JInt 17) [(''extra'', ''type.HB-00000001.X_custom'')]
     [(''serial_number'', JStr ''HB-00000001''), (''type'', JStr ''X_custom'')]
   = Inr ([], Some [(''dateTime'', JInt 1600000000), (''usUnits'', JInt 17),
                    (''extra'', JStr ''X_custom'')])
   \<and> keys [(''dateTime'', JInt 1600000000), (''usUnits'', JInt 17), (''extra'', JStr ''X_custom'')]
       \<noteq> {''dateTime''}"
  by (simp add: eval_defs keys_def)

text \<open>
  Claim C8, amended: for a message whose \<^verbatim>\<open>serial_number\<close> is a string and whose type
  is a string starting with \<^verbatim>\<open>X_\<close>, flattening succeeds, logs nothing and sets
  \<open>time_epoch\<close> to the current time; for every alias table none of whose normalised
  dotted keys is \<open>time_epoch\<close> or the raw copy \<open>key.hardwareId.type\<close> of a top-level key
  of the message, the output record is exactly \<open>dateTime\<close> (the current time) and
  \<open>usUnits\<close> (the metric tag).
\<close>

theorem X_packet_output:
  assumes "map_of pkt ''serial_number'' = Some (JStr sn)"
    and "map_of pkt ''type'' = Some (JStr ty)"
    and "take 2 ty = ''X_''"
    and "\<forall>e \<in> set sensor_map. replace_hyphen (snd e) \<noteq> ''time_epoch'' \<and>
           (\<forall>k \<in> keys pkt. replace_hyphen (snd e) \<noteq> k @ ''.'' @ replace_hyphen sn @ ''.'' @ ty)"
  shows "\<exists>flat. parseUDPPacket now pkt = Inr ([], flat)
           \<and> map_of flat ''time_epoch'' = Some (JInt now)
           \<and> sendMyLoopPacket METRICWX flat sensor_map
               = [(''dateTime'', JInt now), (''usUnits'', METRICWX)]"
proof -
  let ?flat = "AList.update ''time_epoch'' (JInt now)
                (copy_raw (replace_hyphen sn @ ''.'' @ ty) pkt [])"
  have keys: "keys ?flat = insert ''time_epoch''
                 ((\<lambda>k. k @ ''.'' @ replace_hyphen sn @ ''.'' @ ty) ` keys pkt)"
    unfolding keys_update keys_copy_raw by (simp add: keys_def)
  have t: "map_of ?flat ''time_epoch'' = Some (JInt now)"
    by (simp add: AList.update_conv')
  have "\<forall>e \<in> set sensor_map. map_of ?flat (replace_hyphen (snd e)) = None"
  proof
    fix e assume "e \<in> set sensor_map"
    with assms(4) have "replace_hyphen (snd e) \<notin> keys ?flat"
      unfolding keys by auto
    then show "map_of ?flat (replace_hyphen (snd e)) = None"
      by (simp add: keys_def map_of_eq_None_iff)
  qed
  from project_no_match [OF this]
  have "sendMyLoopPacket METRICWX ?flat sensor_map = [(''dateTime'', JInt now), (''usUnits'', METRICWX)]"
    unfolding sendMyLoopPacket_def using t by simp
  with t parseUDPPacket_X [OF assms(1-3)] show ?thesis by blast
qed

theorem X_packet_output_witness:
  "map_of [(''serial_number'', JStr ''HB-00000001''), (''type'', JStr ''X_custom'')] ''serial_number''
     = Some (JStr ''HB-00000001'')
   \<and> map_of [(''serial_number'', JStr ''HB-00000001''), (''type'', JStr ''X_custom'')] ''type''
     = Some (JStr ''X_custom'')
   \<and> take 2 ''X_custom'' = ''X_''
   \<and> (\<exists>flat. parseUDPPacket 1600000000
                 [(''serial_number'', JStr ''HB-00000001''), (''type'', JStr ''X_custom'')] = Inr ([], flat)
           \<and> map_of flat ''time_epoch'' = Some (JInt 1600000000)
           \<and> sendMyLoopPacket (JInt 17) flat [(''outTemp'', ''air_temperature.AR-00004424.obs_air'')]
               = [(''dateTime'', JInt 1600000000), (''usUnits'', JInt 17)])"
  using X_packet_output [of "[(''serial_number'', JStr ''HB-00000001''), (''type'', JStr ''X_custom'')]"
     "''HB-00000001''" "''X_custom''" "[(''outTemp'', ''air_temperature.AR-00004424.obs_air'')]"
     1600000000 "JInt 17"]
  by (simp add: keys_def replace_hyphen_def)

text \<open>
  Claim C9 says that every value of the flattened record is a string or a number, the
  values copied from the top-level keys included. The raw copy stores every top-level value
  as it is, so the array under \<^verbatim>\<open>obs\<close> is stored, as an array, under
  \<^verbatim>\<open>obs.AR_00004424.obs_air\<close>.
\<close>

theorem flattened_array_counterexample:
  "parseUDPPacket 0
     [(''serial_number'', JStr ''AR-00004424''), (''type'', JStr ''obs_air''),
      (''obs'', JArr [JArr [JInt 1600000000, JFloat 1015.1]])]
   = Inr ([], [(''serial_number.AR_00004424.obs_air'', JStr ''AR-00004424''),
               (''type.AR_00004424.obs_air'', JStr ''obs_air''),
               (''obs.AR_00004424.obs_air'', JArr [JArr [JInt 1600000000, JFloat 1015.1]]),
               (''time_epoch'', JInt 1600000000),
               (''time_epoch.AR_00004424.obs_air'', JInt 1600000000),
               (''station_pressure.AR_00004424.obs_air'', JFloat 1015.1)])
   \<and> \<not> is_scalar (JArr [JArr [JInt 1600000000, JFloat 1015.1]])"
  by (simp add: eval_defs)

text \<open>
  Claim C9, amended: when the elements of the positional arrays of the message
  (\<^verbatim>\<open>obs[0]\<close>, \<^verbatim>\<open>ob\<close>, \<^verbatim>\<open>evt\<close>, where present) are scalars, every value of the
  flattened record is a scalar, with two exceptions, both values of the message stored as
  they are, whatever their shape: the value of a top-level key \<open>key\<close>, stored by the raw
  copy under \<open>key.hardwareId.type\<close>, and, for the two status types, the value of
  \<^verbatim>\<open>timestamp\<close>, stored under \<open>time_epoch\<close>. So the fields written from the
  positional array, and \<open>time_epoch\<close> for every other type, are scalars.
\<close>

theorem flattened_values:
  assumes "parseUDPPacket now pkt = Inr (logged, flat)"
    and "(k, v) \<in> set flat"
    and "\<forall>obs obs0. map_of pkt ''obs'' = Some obs \<and> py_first obs = Inr obs0
            \<longrightarrow> (\<forall>x \<in> set (elements obs0). is_scalar x)"
    and "\<forall>ob. map_of pkt ''ob'' = Some ob \<longrightarrow> (\<forall>x \<in> set (elements ob). is_scalar x)"
    and "\<forall>evt. map_of pkt ''evt'' = Some evt \<longrightarrow> (\<forall>x \<in> set (elements evt). is_scalar x)"
  shows "is_scalar v
       \<or> (\<exists>key sn ty. map_of pkt ''serial_number'' = Some (JStr sn)
             \<and> map_of pkt ''type'' = Some (JStr ty)
             \<and> map_of pkt key = Some v
             \<and> k = key @ ''.'' @ replace_hyphen sn @ ''.'' @ ty)
       \<or> (k = ''time_epoch'' \<and> map_of pkt ''timestamp'' = Some v
             \<and> (map_of pkt ''type'' = Some (JStr ''device_status'')
                  \<or> map_of pkt ''type'' = Some (JStr ''hub_status'')))"
  using assms(1)
proof (cases rule: parseUDPPacket_Inr_cases)
  case corrupt
  with assms(2) show ?thesis by simp
next
  case (typed sn ty)
  let ?l = "replace_hyphen sn @ ''.'' @ ty"
  let ?raw = "copy_raw ?l pkt []"
  have raw: "\<exists>key. map_of pkt key = Some v \<and> k = key @ ''.'' @ ?l" if "(k, v) \<in> set ?raw"
    using set_copy_raw_key [OF that] by simp
  have copied: ?thesis if "(k, v) \<in> set ?raw"
    using raw [OF that] typed(1,2) by blast
  have pos: ?thesis
    if "positional ?l ty' arr ?raw = Inr flat" "\<forall>x \<in> set (elements arr). is_scalar x"
    for ty' arr
  proof -
    from set_positional [OF that(1) assms(2)]
    have "(k, v) \<in> set ?raw \<or> v \<in> set (elements arr)" .
    then show ?thesis
    proof
      assume "(k, v) \<in> set ?raw"
      then show ?thesis by (rule copied)
    next
      assume "v \<in> set (elements arr)"
      with that(2) have "is_scalar v" by blast
      then show ?thesis by blast
    qed
  qed
  from typed(3) show ?thesis
  proof (cases rule: dispatch_Inr_cases)
    case (roll obs obs0)
    with assms(3) pos show ?thesis by blast
  next
    case (wind ob)
    with assms(4) pos show ?thesis by blast
  next
    case (evt ev)
    with assms(5) pos show ?thesis by blast
  next
    case (status t)
    from assms(2) status(2) have "(k, v) \<in> set ?raw \<or> (k = ''time_epoch'' \<and> v = t)"
      by (auto dest: set_update_cases)
    then show ?thesis
    proof
      assume "(k, v) \<in> set ?raw"
      then show ?thesis by (rule copied)
    next
      assume "k = ''time_epoch'' \<and> v = t"
      moreover from status(4) typed(2)
      have "map_of pkt ''type'' = Some (JStr ''device_status'')
              \<or> map_of pkt ''type'' = Some (JStr ''hub_status'')" by auto
      ultimately show ?thesis using status(1) by blast
    qed
  next
    case clock
    from assms(2) clock(2) have "(k, v) \<in> set ?raw \<or> v = JInt now"
      by (auto dest: set_update_cases)
    then show ?thesis
    proof
      assume "(k, v) \<in> set ?raw"
      then show ?thesis by (rule copied)
    next
      assume "v = JInt now"
      then have "is_scalar v" by simp
      then show ?thesis by blast
    qed
  next
    case unknown
    with assms(2) have "(k, v) \<in> set ?raw" by simp
    then show ?thesis by (rule copied)
  qed
qed

theorem flattened_values_witness:
  "parseUDPPacket 0
     [(''serial_number'', JStr ''AR-00004424''), (''type'', JStr ''obs_air''),
      (''obs'', JArr [JArr [JInt 1600000000, JFloat 1015.1]])]
   = Inr ([], [(''serial_number.AR_00004424.obs_air'', JStr ''AR-00004424''),
               (''type.AR_00004424.obs_air'', JStr ''obs_air''),
               (''obs.AR_00004424.obs_air'', JArr [JArr [JInt 1600000000, JFloat 1015.1]]),
               (''time_epoch'', JInt 1600000000),
               (''time_epoch.AR_00004424.obs_air'', JInt 1600000000),
               (''station_pressure.AR_00004424.obs_air'', JFloat 1015.1)])
   \<and> (is_scalar (JArr [JArr [JInt 1600000000, JFloat 1015.1]])
       \<or> (\<exists>key sn ty.
             map_of [(''serial_number'', JStr ''AR-00004424''), (''type'', JStr ''obs_air''),
                     (''obs'', JArr [JArr [JInt 1600000000, JFloat 1015.1]])] ''serial_number''
               = Some (JStr sn)
           \<and> map_of [(''serial_number'', JStr ''AR-00004424''), (''type'', JStr ''obs_air''),
                     (''obs'', JArr [JArr [JInt 1600000000, JFloat 1015.1]])] ''type''
               = Some (JStr ty)
           \<and> map_of [(''serial_number'', JStr ''AR-00004424''), (''type'', JStr ''obs_air''),
                     (''obs'', JArr [JArr [JInt 1600000000, JFloat 1015.1]])] key
               = Some (JArr [JArr [JInt 1600000000, JFloat 1015.1]])
           \<and> ''obs.AR_00004424.obs_air'' = key @ ''.'' @ replace_hyphen sn @ ''.'' @ ty)
       \<or> (''obs.AR_00004424.obs_air'' = ''time_epoch''
           \<and> map_of [(''serial_number'', JStr ''AR-00004424''), (''type'', JStr ''obs_air''),
                     (''obs'', JArr [JArr [JInt 1600000000, JFloat 1015.1]])] ''timestamp''
               = Some (JArr [JArr [JInt 1600000000, JFloat 1015.1]])
           \<and> (map_of [(''serial_number'', JStr ''AR-00004424''), (''type'', JStr ''obs_air''),
                     (''obs'', JArr [JArr [JInt 1600000000, JFloat 1015.1]])] ''type''
                 = Some (JStr ''device_status'')
                \<or> map_of [(''serial_number'', JStr ''AR-00004424''), (''type'', JStr ''obs_air''),
                     (''obs'', JArr [JArr [JInt 1600000000, JFloat 1015.1]])] ''type''
                 = Some (JStr ''hub_status''))))
   \<and> \<not> is_scalar (JArr [JArr [JInt 1600000000, JFloat 1015.1]])
   \<and> ''obs.AR_00004424.obs_air'' \<noteq> ''time_epoch''"
proof -
  let ?msg = "[(''serial_number'', JStr ''AR-00004424''), (''type'', JStr ''obs_air''),
      (''obs'', JArr [JArr [JInt 1600000000, JFloat 1015.1]])]"
  let ?flat = "[(''serial_number.AR_00004424.obs_air'', JStr ''AR-00004424''),
               (''type.AR_00004424.obs_air'', JStr ''obs_air''),
               (''obs.AR_00004424.obs_air'', JArr [JArr [JInt 1600000000, JFloat 1015.1]]),
               (''time_epoch'', JInt 1600000000),
               (''time_epoch.AR_00004424.obs_air'', JInt 1600000000),
               (''station_pressure.AR_00004424.obs_air'', JFloat 1015.1)]"
  have p: "parseUDPPacket 0 ?msg = Inr ([], ?flat)"
    by (simp add: eval_defs)
  have m: "(''obs.AR_00004424.obs_air'', JArr [JArr [JInt 1600000000, JFloat 1015.1]]) \<in> set ?flat"
    by simp
  have h3: "\<forall>obs obs0. map_of ?msg ''obs'' = Some obs \<and> py_first obs = Inr obs0
            \<longrightarrow> (\<forall>x \<in> set (elements obs0). is_scalar x)"
    by (auto simp: elements_def)
  have h4: "\<forall>ob. map_of ?msg ''ob'' = Some ob \<longrightarrow> (\<forall>x \<in> set (elements ob). is_scalar x)"
    by simp
  have h5: "\<forall>evt. map_of ?msg ''evt'' = Some evt \<longrightarrow> (\<forall>x \<in> set (elements evt). is_scalar x)"
    by simp
  have n: "\<not> is_scalar (JArr [JArr [JInt 1600000000, JFloat 1015.1]])" by simp
  have k: "''obs.AR_00004424.obs_air'' \<noteq> ''time_epoch''" by simp
  from p flattened_values [OF p m h3 h4 h5] n k show ?thesis by (intro conjI)
qed

text \<open>
  Claim C4 says that the composite keys of two messages with distinct hardware ids never
  collide. The hardware id enters the key with its hyphens replaced by underscores, so
  the distinct ids \<^verbatim>\<open>AR-00004424\<close> and \<^verbatim>\<open>AR_00004424\<close> give the same keys: both
  records below have \<^verbatim>\<open>distance.AR_00004424.evt_strike\<close>, with different values.
\<close>

theorem normalised_ids_collide_counterexample:
  "''AR-00004424'' \<noteq> ''AR_00004424''
   \<and> parseUDPPacket 0 [(''serial_number'', JStr ''AR-00004424''), (''type'', JStr ''evt_strike''),
                        (''evt'', JArr [JInt 1600000000, JInt 27, JInt 3848])]
     = Inr ([], [(''serial_number.AR_00004424.evt_strike'', JStr ''AR-00004424''),
                 (''type.AR_00004424.evt_strike'', JStr ''evt_strike''),
                 (''evt.AR_00004424.evt_strike'', JArr [JInt 1600000000, JInt 27, JInt 3848]),
                 (''time_epoch'', JInt 1600000000),
                 (''time_epoch.AR_00004424.evt_strike'', JInt 1600000000),
                 (''distance.AR_00004424.evt_strike'', JInt 27),
                 (''energy.AR_00004424.evt_strike'', JInt 3848)])
   \<and> parseUDPPacket 0 [(''serial_number'', JStr ''AR_00004424''), (''type'', JStr ''evt_strike''),
                        (''evt'', JArr [JInt 1600000060, JInt 5, JInt 100])]
     = Inr ([], [(''serial_number.AR_00004424.evt_strike'', JStr ''AR_00004424''),
                 (''type.AR_00004424.evt_strike'', JStr ''evt_strike''),
                 (''evt.AR_00004424.evt_strike'', JArr [JInt 1600000060, JInt 5, JInt 100]),
                 (''time_epoch'', JInt 1600000060),
                 (''time_epoch.AR_00004424.evt_strike'', JInt 1600000060),
                 (''distance.AR_00004424.evt_strike'', JInt 5),
                 (''energy.AR_00004424.evt_strike'', JInt 100)])"
  by (simp add: eval_defs)

text \<open>
  Claim C4, amended: take two messages that flatten without error, whose hardware ids
  are still different after the replacement of hyphens by underscores, and let the ids and
  the top-level keys of the messages contain no \<^verbatim>\<open>.\<close>, the separator of the composite
  keys. Then every key of either record other than \<open>time_epoch\<close> ends with the
  normalised hardware id and the packet type of its message, and the two records have no
  key in common other than \<open>time_epoch\<close>, whatever the field names and the packet types.
\<close>

theorem composite_keys_disjoint:
  assumes "parseUDPPacket now1 pkt1 = Inr (logged1, flat1)"
    and "parseUDPPacket now2 pkt2 = Inr (logged2, flat2)"
    and "map_of pkt1 ''serial_number'' = Some (JStr sn1)"
    and "map_of pkt2 ''serial_number'' = Some (JStr sn2)"
    and "map_of pkt1 ''type'' = Some (JStr ty1)"
    and "map_of pkt2 ''type'' = Some (JStr ty2)"
    and "replace_hyphen sn1 \<noteq> replace_hyphen sn2"
    and "CHR ''.'' \<notin> set sn1" and "CHR ''.'' \<notin> set sn2"
    and "\<forall>key \<in> keys pkt1 \<union> keys pkt2. CHR ''.'' \<notin> set key"
  shows "(\<forall>k \<in> keys flat1. k = ''time_epoch''
            \<or> (\<exists>f. k = f @ ''.'' @ replace_hyphen sn1 @ ''.'' @ ty1))
       \<and> (\<forall>k \<in> keys flat2. k = ''time_epoch''
            \<or> (\<exists>f. k = f @ ''.'' @ replace_hyphen sn2 @ ''.'' @ ty2))
       \<and> keys flat1 \<inter> keys flat2 \<subseteq> {''time_epoch''}"
proof -
  from assms(10) have d1: "\<forall>key \<in> keys pkt1. CHR ''.'' \<notin> set key"
    and d2: "\<forall>key \<in> keys pkt2. CHR ''.'' \<notin> set key" by auto
  note k1 = keys_parseUDPPacket [OF assms(1) assms(3) assms(5) d1]
  note k2 = keys_parseUDPPacket [OF assms(2) assms(4) assms(6) d2]
  have "k = ''time_epoch''" if "k \<in> keys flat1" "k \<in> keys flat2" for k
  proof (rule ccontr)
    assume ne: "k \<noteq> ''time_epoch''"
    with k1 [OF that(1)] obtain f1 where f1: "CHR ''.'' \<notin> set f1"
      "k = f1 @ ''.'' @ replace_hyphen sn1 @ ''.'' @ ty1" by blast
    from ne k2 [OF that(2)] obtain f2 where f2: "CHR ''.'' \<notin> set f2"
      "k = f2 @ ''.'' @ replace_hyphen sn2 @ ''.'' @ ty2" by blast
    from f1(2) f2(2) have "f1 @ CHR ''.'' # (replace_hyphen sn1 @ ''.'' @ ty1)
         = f2 @ CHR ''.'' # (replace_hyphen sn2 @ ''.'' @ ty2)" by simp
    from split_at_dot [OF f1(1) f2(1) this]
    have "replace_hyphen sn1 @ CHR ''.'' # ty1 = replace_hyphen sn2 @ CHR ''.'' # ty2" by simp
    from split_at_dot [OF no_dot_replace_hyphen [OF assms(8)] no_dot_replace_hyphen [OF assms(9)] this]
    have "replace_hyphen sn1 = replace_hyphen sn2" by simp
    with assms(7) show False by contradiction
  qed
  then have "keys flat1 \<inter> keys flat2 \<subseteq> {''time_epoch''}" by blast
  moreover from k1 have "\<forall>k \<in> keys flat1. k = ''time_epoch''
            \<or> (\<exists>f. k = f @ ''.'' @ replace_hyphen sn1 @ ''.'' @ ty1)" by blast
  moreover from k2 have "\<forall>k \<in> keys flat2. k = ''time_epoch''
            \<or> (\<exists>f. k = f @ ''.'' @ replace_hyphen sn2 @ ''.'' @ ty2)" by blast
  ultimately show ?thesis by blast
qed

theorem composite_keys_disjoint_witness:
  "parseUDPPacket 0 [(''serial_number'', JStr ''AR-00004424''), (''type'', JStr ''evt_strike''),
                     (''evt'', JArr [JInt 1600000000, JInt 27, JInt 3848])]
     = Inr ([], [(''serial_number.AR_00004424.evt_strike'', JStr ''AR-00004424''),
                 (''type.AR_00004424.evt_strike'', JStr ''evt_strike''),
                 (''evt.AR_00004424.evt_strike'', JArr [JInt 1600000000, JInt 27, JInt 3848]),
                 (''time_epoch'', JInt 1600000000),
                 (''time_epoch.AR_00004424.evt_strike'', JInt 1600000000),
                 (''distance.AR_00004424.evt_strike'', JInt 27),
                 (''energy.AR_00004424.evt_strike'', JInt 3848)])
   \<and> parseUDPPacket 0 [(''serial_number'', JStr ''AR-00004425''), (''type'', JStr ''evt_strike''),
                        (''evt'', JArr [JInt 1600000060, JInt 5, JInt 100])]
     = Inr ([], [(''serial_number.AR_00004425.evt_strike'', JStr ''AR-00004425''),
                 (''type.AR_00004425.evt_strike'', JStr ''evt_strike''),
                 (''evt.AR_00004425.evt_strike'', JArr [JInt 1600000060, JInt 5, JInt 100]),
                 (''time_epoch'', JInt 1600000060),
                 (''time_epoch.AR_00004425.evt_strike'', JInt 1600000060),
                 (''distance.AR_00004425.evt_strike'', JInt 5),
                 (''energy.AR_00004425.evt_strike'', JInt 100)])
   \<and> replace_hyphen ''AR-00004424'' \<noteq> replace_hyphen ''AR-00004425''
   \<and> keys [(''serial_number.AR_00004424.evt_strike'', JStr ''AR-00004424''),
                 (''type.AR_00004424.evt_strike'', JStr ''evt_strike''),
                 (''evt.AR_00004424.evt_strike'', JArr [JInt 1600000000, JInt 27, JInt 3848]),
                 (''time_epoch'', JInt 1600000000),
                 (''time_epoch.AR_00004424.evt_strike'', JInt 1600000000),
                 (''distance.AR_00004424.evt_strike'', JInt 27),
                 (''energy.AR_00004424.evt_strike'', JInt 3848)]
       \<inter> keys [(''serial_number.AR_00004425.evt_strike'', JStr ''AR-00004425''),
                 (''type.AR_00004425.evt_strike'', JStr ''evt_strike''),
                 (''evt.AR_00004425.evt_strike'', JArr [JInt 1600000060, JInt 5, JInt 100]),
                 (''time_epoch'', JInt 1600000060),
                 (''time_epoch.AR_00004425.evt_strike'', JInt 1600000060),
                 (''distance.AR_00004425.evt_strike'', JInt 5),
                 (''energy.AR_00004425.evt_strike'', JInt 100)]
       \<subseteq> {''time_epoch''}"
proof -
  let ?pkt1 = "[(''serial_number'', JStr ''AR-00004424''), (''type'', JStr ''evt_strike''),
                (''evt'', JArr [JInt 1600000000, JInt 27, JInt 3848])]"
  let ?pkt2 = "[(''serial_number'', JStr ''AR-00004425''), (''type'', JStr ''evt_strike''),
                (''evt'', JArr [JInt 1600000060, JInt 5, JInt 100])]"
  let ?flat1 = "[(''serial_number.AR_00004424.evt_strike'', JStr ''AR-00004424''),
                 (''type.AR_00004424.evt_strike'', JStr ''evt_strike''),
                 (''evt.AR_00004424.evt_strike'', JArr [JInt 1600000000, JInt 27, JInt 3848]),
                 (''time_epoch'', JInt 1600000000),
                 (''time_epoch.AR_00004424.evt_strike'', JInt 1600000000),
                 (''distance.AR_00004424.evt_strike'', JInt 27),
                 (''energy.AR_00004424.evt_strike'', JInt 3848)]"
  let ?flat2 = "[(''serial_number.AR_00004425.evt_strike'', JStr ''AR-00004425''),
                 (''type.AR_00004425.evt_strike'', JStr ''evt_strike''),
                 (''evt.AR_00004425.evt_strike'', JArr [JInt 1600000060, JInt 5, JInt 100]),
                 (''time_epoch'', JInt 1600000060),
                 (''time_epoch.AR_00004425.evt_strike'', JInt 1600000060),
                 (''distance.AR_00004425.evt_strike'', JInt 5),
                 (''energy.AR_00004425.evt_strike'', JInt 100)]"
  have p1: "parseUDPPacket 0 ?pkt1 = Inr ([], ?flat1)" by (simp add: eval_defs)
  have p2: "parseUDPPacket 0 ?pkt2 = Inr ([], ?flat2)" by (simp add: eval_defs)
  have s1: "map_of ?pkt1 ''serial_number'' = Some (JStr ''AR-00004424'')" by simp
  have s2: "map_of ?pkt2 ''serial_number'' = Some (JStr ''AR-00004425'')" by simp
  have t1: "map_of ?pkt1 ''type'' = Some (JStr ''evt_strike'')" by simp
  have t2: "map_of ?pkt2 ''type'' = Some (JStr ''evt_strike'')" by simp
  have ne: "replace_hyphen ''AR-00004424'' \<noteq> replace_hyphen ''AR-00004425''"
    by (simp add: replace_hyphen_def)
  have d1: "CHR ''.'' \<notin> set ''AR-00004424''" by simp
  have d2: "CHR ''.'' \<notin> set ''AR-00004425''" by simp
  have dk: "\<forall>key \<in> keys ?pkt1 \<union> keys ?pkt2. CHR ''.'' \<notin> set key"
    by (simp add: keys_def)
  from composite_keys_disjoint [OF p1 p2 s1 s2 t1 t2 ne d1 d2 dk]
  have "keys ?flat1 \<inter> keys ?flat2 \<subseteq> {''time_epoch''}" by (elim conjE)
  with p1 p2 ne show ?thesis by (intro conjI)
qed




end
